theory Spec2Isabelle
  imports Main
begin

section \<open>The port adapter of the exporter: \<^verbatim>\<open>lib/Service.py\<close>\<close>

text \<open>
  The class \<^verbatim>\<open>Service\<close> is embedded as a record of its attributes and one function
  per method. A method takes the object, the backend and the requests sent so far, and
  returns its outcome (an exception or a value), the object as the method leaves it and
  the requests sent up to then. An exception leaves the attributes assigned before it in
  place, as in Python.
\<close>

subsection \<open>Exceptions and Python strings\<close>

datatype error =
    IndexError
  | TypeError
  | ValueError
  | RequestException
  | JSONDecodeError

text \<open>\<^verbatim>\<open>str.lower\<close>, \<^verbatim>\<open>str.startswith\<close>, \<^verbatim>\<open>str.endswith\<close> and \<^verbatim>\<open>str(int)\<close> on ASCII text.\<close>

definition lower_char :: "char \<Rightarrow> char" where
  "lower_char c =
     (case map_of (zip ''ABCDEFGHIJKLMNOPQRSTUVWXYZ'' ''abcdefghijklmnopqrstuvwxyz'') c of
        None \<Rightarrow> c
      | Some d \<Rightarrow> d)"

definition lower :: "string \<Rightarrow> string" where
  "lower s = map lower_char s"

definition startswith :: "string \<Rightarrow> string \<Rightarrow> bool" where
  "startswith s p = (take (length p) s = p)"

definition endswith_slash :: "string \<Rightarrow> bool" where
  "endswith_slash s = (case rev s of [] \<Rightarrow> False | c # _ \<Rightarrow> c = CHR ''/'')"

fun str_nat :: "nat \<Rightarrow> string" where
  "str_nat n =
     (if n < 10 then [''0123456789'' ! n]
      else str_nat (n div 10) @ [''0123456789'' ! (n mod 10)])"

definition str_int :: "int \<Rightarrow> string" where
  "str_int i = (if i < 0 then CHR ''-'' # str_nat (nat (- i)) else str_nat (nat i))"

text \<open>\<^verbatim>\<open>str(x)\<close> of a value that is a string or \<^verbatim>\<open>None\<close>, as an f-string or
  \<^verbatim>\<open>format\<close> prints it.\<close>

definition str_opt :: "string option \<Rightarrow> string" where
  "str_opt v = (case v of None \<Rightarrow> ''None'' | Some s \<Rightarrow> s)"

subsection \<open>Requests and responses\<close>

datatype verb = GET | POST | DELETE

text \<open>
  A call of the \<^verbatim>\<open>requests\<close> library: the method, the URL, the fields passed as
  \<^verbatim>\<open>json=\<close> or \<^verbatim>\<open>data=\<close> (a value is a string or \<^verbatim>\<open>None\<close>), and the
  \<^verbatim>\<open>files=\<close> part of a multipart upload (file name and bytes).
\<close>

record request =
  meth :: verb
  url :: string
  payload :: "(string \<times> string option) list"
  upload :: "(string \<times> string) option"

text \<open>
  The body of a response read through \<^verbatim>\<open>.json()\<close>: a JSON object, restricted to the
  keys the adapter reads, each absent (\<open>None\<close>) or of the type of the HTTP contract.
\<close>

record body =
  b_files :: "string list option"
  b_fileTransferArchive :: "string option"
  b_fileTransferMode :: "int option"
  b_loginMode :: "int option"
  b_credentials :: "(string \<times> string) list option"

text \<open>\<^verbatim>\<open>json.get(key, default)\<close> on a key that is absent or present.\<close>

definition get_default :: "'a option \<Rightarrow> 'a \<Rightarrow> 'a" where
  "get_default v d = (case v of None \<Rightarrow> d | Some x \<Rightarrow> x)"

text \<open>A response: \<open>json_body\<close> is \<open>None\<close> when the content is not JSON, so that
  \<^verbatim>\<open>.json()\<close> raises.\<close>

record response =
  status_code :: int
  content :: string
  json_body :: "body option"

text \<open>
  The backend answers a request depending on the requests it has received before; \<open>None\<close>
  is a call of \<^verbatim>\<open>requests\<close> that raises (the port is unreachable).
\<close>

type_synonym network = "request list \<Rightarrow> request \<Rightarrow> response option"

text \<open>
  The enumerations \<^verbatim>\<open>FileTransferMode\<close> and \<^verbatim>\<open>LoginMode\<close> are imported from the
  package \<^verbatim>\<open>RDS\<close>; their members are parameters here: which integers construct a
  member, and which login modes compare equal to \<^verbatim>\<open>0\<close>.
\<close>

record env =
  net :: network
  isFileTransferMode :: "int \<Rightarrow> bool"
  isLoginMode :: "int \<Rightarrow> bool"
  loginModeEq0 :: "int \<Rightarrow> bool"

subsection \<open>The object\<close>

text \<open>
  \<open>files\<close> and \<open>customProperties\<close> are \<open>None\<close> when the attribute holds Python's
  \<^verbatim>\<open>None\<close>; \<open>fileTransferMode\<close>, \<open>loginMode\<close> and \<open>credentials\<close> are \<open>None\<close> until
  \<^verbatim>\<open>reloadInformations\<close> assigns them. A custom property \<^verbatim>\<open>{"key": k, "value": v}\<close>
  is the pair \<open>(k, v)\<close>.
\<close>

record service =
  files :: "string list option"
  servicename :: string
  portaddress :: "string option"
  userId :: "string option"
  researchIndex :: "int option"
  port :: string
  fileStorage :: bool
  metadata :: bool
  customProperties :: "(string \<times> string) list option"
  useZipForFolder :: bool
  fileTransferMode :: "int option"
  loginMode :: "int option"
  credentials :: "(string \<times> string) list option"

type_synonym 'a outcome = "(error + 'a) \<times> service \<times> request list"

subsection \<open>Property lookup\<close>

fun scan :: "(string \<times> string) list \<Rightarrow> string \<Rightarrow> string option" where
  "scan [] key = None"
| "scan ((k, v) # props) key = (if k = key then Some v else scan props key)"

text \<open>\<^verbatim>\<open>for prop in self.customProperties\<close> raises \<^verbatim>\<open>TypeError\<close> on \<^verbatim>\<open>None\<close>.\<close>

definition getProperty :: "service \<Rightarrow> string \<Rightarrow> error + string option" where
  "getProperty s key =
     (case customProperties s of
        None \<Rightarrow> Inl TypeError
      | Some props \<Rightarrow> Inr (scan props key))"

definition getFilepath :: "service \<Rightarrow> error + string option" where
  "getFilepath s =
     (case getProperty s ''filepath'' of
        Inl e \<Rightarrow> Inl e
      | Inr filepath \<Rightarrow>
          (if endswith_slash (str_opt filepath) then Inr (map_option butlast filepath)
           else Inr filepath))"

definition getProjectId :: "service \<Rightarrow> error + string option" where
  "getProjectId s = getProperty s ''projectId''"

subsection \<open>Indexing the cached files\<close>

text \<open>
  \<^verbatim>\<open>self.files[file_id]\<close> and \<^verbatim>\<open>del self.files[file_id]\<close>: \<^verbatim>\<open>None\<close> is not subscriptable,
  a negative index counts from the end, an index outside \<open>-n \<dots> n-1\<close> raises
  \<^verbatim>\<open>IndexError\<close>.
\<close>

definition position :: "'a list \<Rightarrow> int \<Rightarrow> error + nat" where
  "position xs i =
     (if 0 \<le> i \<and> i < int (length xs) then Inr (nat i)
      else if i < 0 \<and> - int (length xs) \<le> i then Inr (nat (int (length xs) + i))
      else Inl IndexError)"

definition getitem :: "'a list option \<Rightarrow> int \<Rightarrow> error + 'a" where
  "getitem v i =
     (case v of
        None \<Rightarrow> Inl TypeError
      | Some xs \<Rightarrow> (case position xs i of Inl e \<Rightarrow> Inl e | Inr k \<Rightarrow> Inr (xs ! k)))"

definition delitem :: "'a list option \<Rightarrow> int \<Rightarrow> error + 'a list" where
  "delitem v i =
     (case v of
        None \<Rightarrow> Inl TypeError
      | Some xs \<Rightarrow>
          (case position xs i of Inl e \<Rightarrow> Inl e | Inr k \<Rightarrow> Inr (take k xs @ drop (Suc k) xs)))"

subsection \<open>Synchronisation\<close>

definition reloadInformations :: "env \<Rightarrow> service \<Rightarrow> request list \<Rightarrow> unit outcome" where
  "reloadInformations E s tr =
     (let rq = \<lparr>meth = GET, url = str_opt (portaddress s) @ ''/metadata/informations'',
                payload = [], upload = None\<rparr>;
          tr1 = tr @ [rq]
      in case net E tr rq of
           None \<Rightarrow> (Inl RequestException, s, tr1)
         | Some resp \<Rightarrow>
             (case json_body resp of
                None \<Rightarrow> (Inl JSONDecodeError, s, tr1)
              | Some json \<Rightarrow>
                  (let s1 = s\<lparr>useZipForFolder :=
                              (get_default (b_fileTransferArchive json) [] = ''zip'')\<rparr>;
                       ftm = get_default (b_fileTransferMode json) 0;
                       lm = get_default (b_loginMode json) 1
                   in if isFileTransferMode E ftm then
                        (let s2 = s1\<lparr>fileTransferMode := Some ftm\<rparr>
                         in if isLoginMode E lm then
                              (let s3 = s2\<lparr>loginMode := Some lm\<rparr>
                               in if loginModeEq0 E lm then
                                    (Inr (),
                                     s3\<lparr>credentials :=
                                          Some (get_default (b_credentials json) [])\<rparr>,
                                     tr1)
                                  else (Inr (), s3, tr1))
                            else (Inl ValueError, s2, tr1))
                      else (Inl ValueError, s1, tr1))))"

text \<open>The block under \<^verbatim>\<open>if self.fileStorage\<close> of \<^verbatim>\<open>reload\<close>.\<close>

definition reload_fileStorage :: "env \<Rightarrow> service \<Rightarrow> request list \<Rightarrow> unit outcome" where
  "reload_fileStorage E s tr =
     (case getFilepath s of
        Inl e \<Rightarrow> (Inl e, s, tr)
      | Inr filepath \<Rightarrow>
          (let rq = \<lparr>meth = GET, url = str_opt (portaddress s) @ ''/storage/folder'',
                     payload = [(''filepath'', filepath), (''userId'', userId s)],
                     upload = None\<rparr>;
               tr1 = tr @ [rq]
           in case net E tr rq of
                None \<Rightarrow> (Inl RequestException, s, tr1)
              | Some resp \<Rightarrow>
                  (case json_body resp of
                     None \<Rightarrow> (Inl JSONDecodeError, s, tr1)
                   | Some json \<Rightarrow> (Inr (), s\<lparr>files := b_files json\<rparr>, tr1))))"

definition reload :: "env \<Rightarrow> service \<Rightarrow> request list \<Rightarrow> unit outcome" where
  "reload E s tr =
     (case (if fileStorage s then reload_fileStorage E s tr else (Inr (), s, tr)) of
        (Inl e, s1, tr1) \<Rightarrow> (Inl e, s1, tr1)
      | (Inr _, s1, tr1) \<Rightarrow>
          (if metadata s1 then reloadInformations E s1 tr1 else (Inr (), s1, tr1)))"

subsection \<open>Construction\<close>

text \<open>The argument \<^verbatim>\<open>testing\<close>: \<^verbatim>\<open>False\<close>, or any other value (an address or \<^verbatim>\<open>None\<close>),
  which then is the port address.\<close>

datatype testing = NoOverride | Override "string option"

definition init ::
  "env \<Rightarrow> string \<Rightarrow> string option \<Rightarrow> int option \<Rightarrow> bool \<Rightarrow> bool \<Rightarrow>
   (string \<times> string) list option \<Rightarrow> testing \<Rightarrow> request list \<Rightarrow> unit outcome" where
  "init E name uid rix fs md props tst tr =
     (let name1 = (if startswith name ''port-'' then name else ''port-'' @ lower name);
          address = Some (''http://circle1-'' @ lower name1);
          s = \<lparr>files = Some [],
               servicename = name,
               portaddress = (case tst of NoOverride \<Rightarrow> address | Override a \<Rightarrow> a),
               userId = uid,
               researchIndex = rix,
               port = name1,
               fileStorage = fs,
               metadata = md,
               customProperties = props,
               useZipForFolder = False,
               fileTransferMode = None,
               loginMode = None,
               credentials = None\<rparr>
      in reload E s tr)"

subsection \<open>Serialisation, as the log lines use it\<close>

text \<open>
  \<^verbatim>\<open>getFiles()\<close> without content enumerates \<^verbatim>\<open>self.files\<close>, which raises on \<^verbatim>\<open>None\<close>;
  \<^verbatim>\<open>getDict\<close> collects it. \<^verbatim>\<open>getJSON\<close> prints that dictionary of strings, which
  cannot fail; its text only reaches the log, so the dictionary stands for it.
\<close>

definition getFiles :: "service \<Rightarrow> error + string list" where
  "getFiles s = (case files s of None \<Rightarrow> Inl TypeError | Some fs \<Rightarrow> Inr fs)"

definition getDict :: "service \<Rightarrow> error + string \<times> string list" where
  "getDict s = (case getFiles s of Inl e \<Rightarrow> Inl e | Inr fs \<Rightarrow> Inr (servicename s, fs))"

definition getJSON :: "service \<Rightarrow> error + string \<times> string list" where
  "getJSON s = getDict s"

subsection \<open>Operations on files\<close>

definition getFile :: "env \<Rightarrow> service \<Rightarrow> request list \<Rightarrow> int \<Rightarrow> string outcome" where
  "getFile E s tr file_id =
     (case getitem (files s) file_id of
        Inl e \<Rightarrow> (Inl e, s, tr)
      | Inr file \<Rightarrow>
          (if fileStorage s then
             (case getFilepath s of
                Inl e \<Rightarrow> (Inl e, s, tr)
              | Inr filepath \<Rightarrow>
                  (let rq = \<lparr>meth = GET, url = str_opt (portaddress s) @ ''/storage/file'',
                             payload = [(''userId'', userId s),
                                        (''filepath'', Some (str_opt filepath @ ''/'' @ file))],
                             upload = None\<rparr>;
                       tr1 = tr @ [rq]
                   in case net E tr rq of
                        None \<Rightarrow> (Inl RequestException, s, tr1)
                      | Some response_to \<Rightarrow> (Inr (content response_to), s, tr1)))
           else (Inr [], s, tr)))"

text \<open>
  \<^verbatim>\<open>triggerPassiveMode\<close> and \<^verbatim>\<open>addFile\<close> first format a debug line with
  \<^verbatim>\<open>self.getJSON()\<close>, and on a status from 300 log \<^verbatim>\<open>response_to.json()\<close> before
  they return \<^verbatim>\<open>False\<close>; both are evaluated whatever the log level.
\<close>

definition triggerPassiveMode :: "env \<Rightarrow> service \<Rightarrow> request list \<Rightarrow> string \<Rightarrow> bool outcome" where
  "triggerPassiveMode E s tr folder =
     (case getJSON s of
        Inl e \<Rightarrow> (Inl e, s, tr)
      | Inr _ \<Rightarrow>
          (if metadata s then
             (case getProjectId s of
                Inl e \<Rightarrow> (Inl e, s, tr)
              | Inr projectId \<Rightarrow>
                  (let rq = \<lparr>meth = POST,
                             url = str_opt (portaddress s) @ ''/metadata/project/''
                                   @ str_opt projectId @ ''/files'',
                             payload = [(''userId'', userId s), (''folder'', Some folder)],
                             upload = None\<rparr>;
                       tr1 = tr @ [rq]
                   in case net E tr rq of
                        None \<Rightarrow> (Inl RequestException, s, tr1)
                      | Some response_to \<Rightarrow>
                          (if status_code response_to \<ge> 300 then
                             (case json_body response_to of
                                None \<Rightarrow> (Inl JSONDecodeError, s, tr1)
                              | Some _ \<Rightarrow> (Inr False, s, tr1))
                           else (Inr True, s, tr1))))
           else (Inr True, s, tr)))"

definition addFile ::
  "env \<Rightarrow> service \<Rightarrow> request list \<Rightarrow> string \<Rightarrow> string \<Rightarrow> bool outcome" where
  "addFile E s tr filename fileContent =
     (case getJSON s of
        Inl e \<Rightarrow> (Inl e, s, tr)
      | Inr _ \<Rightarrow>
          (if metadata s then
             (case getProjectId s of
                Inl e \<Rightarrow> (Inl e, s, tr)
              | Inr projectId \<Rightarrow>
                  (let rq = \<lparr>meth = POST,
                             url = str_opt (portaddress s) @ ''/metadata/project/''
                                   @ str_opt projectId @ ''/files'',
                             payload = [(''userId'', userId s), (''filename'', Some filename)],
                             upload = Some (filename, fileContent)\<rparr>;
                       tr1 = tr @ [rq]
                   in case net E tr rq of
                        None \<Rightarrow> (Inl RequestException, s, tr1)
                      | Some response_to \<Rightarrow>
                          (if status_code response_to \<ge> 300 then
                             (case json_body response_to of
                                None \<Rightarrow> (Inl JSONDecodeError, s, tr1)
                              | Some _ \<Rightarrow> (Inr False, s, tr1))
                           else (Inr True, s, tr1))))
           else (Inr True, s, tr)))"

text \<open>
  The two blocks of \<^verbatim>\<open>removeFile\<close>. The first returns \<^verbatim>\<open>found\<close> and the dictionary
  \<^verbatim>\<open>data\<close>, to which it has added the file path; the second sends that dictionary.
\<close>

definition removeFile_fileStorage ::
  "env \<Rightarrow> service \<Rightarrow> request list \<Rightarrow> string \<Rightarrow>
   (error + bool \<times> (string \<times> string option) list) \<times> request list" where
  "removeFile_fileStorage E s tr file =
     (if fileStorage s then
        (case getFilepath s of
           Inl e \<Rightarrow> (Inl e, tr)
         | Inr filepath \<Rightarrow>
             (let data = [(''userId'', userId s),
                          (''filepath'', Some (str_opt filepath @ ''/'' @ file))];
                  rq = \<lparr>meth = DELETE, url = str_opt (portaddress s) @ ''/storage/file'',
                        payload = data, upload = None\<rparr>
              in case net E tr rq of
                   None \<Rightarrow> (Inl RequestException, tr @ [rq])
                 | Some req \<Rightarrow> (Inr (status_code req < 300, data), tr @ [rq])))
      else (Inr (False, [(''userId'', userId s)]), tr))"

definition removeFile_metadata ::
  "env \<Rightarrow> service \<Rightarrow> request list \<Rightarrow> int \<Rightarrow> bool \<Rightarrow> (string \<times> string option) list \<Rightarrow>
   (error + bool) \<times> request list" where
  "removeFile_metadata E s tr file_id found data =
     (if metadata s then
        (case getProjectId s of
           Inl e \<Rightarrow> (Inl e, tr)
         | Inr projectId \<Rightarrow>
             (let rq = \<lparr>meth = DELETE,
                        url = str_opt (portaddress s) @ ''/metadata/project/''
                              @ str_opt projectId @ ''/files/'' @ str_int file_id,
                        payload = data, upload = None\<rparr>
              in case net E tr rq of
                   None \<Rightarrow> (Inl RequestException, tr @ [rq])
                 | Some req \<Rightarrow>
                     (Inr (if status_code req < 300 then True else found), tr @ [rq])))
      else (Inr found, tr))"

definition removeFile :: "env \<Rightarrow> service \<Rightarrow> request list \<Rightarrow> int \<Rightarrow> bool outcome" where
  "removeFile E s tr file_id =
     (case getitem (files s) file_id of
        Inl e \<Rightarrow> (Inl e, s, tr)
      | Inr file \<Rightarrow>
          (case removeFile_fileStorage E s tr file of
             (Inl e, tr1) \<Rightarrow> (Inl e, s, tr1)
           | (Inr (found1, data), tr1) \<Rightarrow>
               (case removeFile_metadata E s tr1 file_id found1 data of
                  (Inl e, tr2) \<Rightarrow> (Inl e, s, tr2)
                | (Inr found, tr2) \<Rightarrow>
                    (if found then
                       (case delitem (files s) file_id of
                          Inl e \<Rightarrow> (Inl e, s, tr2)
                        | Inr rest \<Rightarrow> (Inr True, s\<lparr>files := Some rest\<rparr>, tr2))
                     else (Inr False, s, tr2)))))"

text \<open>The block under \<^verbatim>\<open>if self.metadata\<close> of \<^verbatim>\<open>removeAllFiles\<close>.\<close>

definition removeAllFiles_metadata ::
  "env \<Rightarrow> service \<Rightarrow> request list \<Rightarrow> bool \<Rightarrow> (error + bool) \<times> request list" where
  "removeAllFiles_metadata E s tr found =
     (if metadata s then
        (case getProjectId s of
           Inl e \<Rightarrow> (Inl e, tr)
         | Inr projectId \<Rightarrow>
             (let rq = \<lparr>meth = DELETE,
                        url = str_opt (portaddress s) @ ''/metadata/project/''
                              @ str_opt projectId @ ''/files'',
                        payload = [(''userId'', userId s)], upload = None\<rparr>
              in case net E tr rq of
                   None \<Rightarrow> (Inl RequestException, tr @ [rq])
                 | Some req \<Rightarrow>
                     (Inr (if status_code req < 300 then True else found), tr @ [rq])))
      else (Inr found, tr))"

definition removeAllFiles :: "env \<Rightarrow> service \<Rightarrow> request list \<Rightarrow> bool outcome" where
  "removeAllFiles E s tr =
     (case removeAllFiles_metadata E s tr (if fileStorage s then True else False) of
        (Inl e, tr1) \<Rightarrow> (Inl e, s, tr1)
      | (Inr found, tr1) \<Rightarrow>
          (if found then
             (case reload E s tr1 of
                (Inl e, s1, tr2) \<Rightarrow> (Inl e, s1, tr2)
              | (Inr _, s1, tr2) \<Rightarrow> (Inr True, s1, tr2))
           else (Inr False, s, tr1)))"

subsection \<open>What the backend confirmed\<close>

text \<open>
  Some request sent after \<open>tr\<close>, up to \<open>tr'\<close>, was answered with a status below 300.
  The backend answered the request at position \<open>k\<close> knowing the requests before it.
\<close>

definition confirmed :: "env \<Rightarrow> request list \<Rightarrow> request list \<Rightarrow> bool" where
  "confirmed E tr tr' =
     (\<exists>k \<in> {length tr ..< length tr'}.
        case net E (take k tr') (tr' ! k) of None \<Rightarrow> False | Some r \<Rightarrow> status_code r < 300)"

subsection \<open>An adapter and some backends\<close>

text \<open>An instance of the enumerations: both have the members 0 and 1, and a login mode
  equals \<^verbatim>\<open>0\<close> when its value is 0.\<close>

definition backend :: "network \<Rightarrow> env" where
  "backend n =
     \<lparr>net = n,
      isFileTransferMode = (\<lambda>m. m = 0 \<or> m = 1),
      isLoginMode = (\<lambda>m. m = 0 \<or> m = 1),
      loginModeEq0 = (\<lambda>m. m = 0)\<rparr>"

definition owncloud :: service where
  "owncloud =
     \<lparr>files = Some [''a.txt'', ''b.txt''],
      servicename = ''owncloud'',
      portaddress = Some ''http://circle1-port-owncloud'',
      userId = Some ''admin'',
      researchIndex = Some 0,
      port = ''port-owncloud'',
      fileStorage = True,
      metadata = True,
      customProperties = Some [(''filepath'', ''/photos/''), (''projectId'', ''5'')],
      useZipForFolder = False,
      fileTransferMode = None,
      loginMode = None,
      credentials = None\<rparr>"

text \<open>The storage side refuses a deletion with 500, every other request gets 204.\<close>

definition storage_refuses :: network where
  "storage_refuses h rq =
     Some \<lparr>status_code = (if url rq = ''http://circle1-port-owncloud/storage/file''
                           then 500 else 204),
           content = [], json_body = None\<rparr>"

text \<open>A port that cannot be reached.\<close>

definition unreachable :: network where
  "unreachable h rq = None"

text \<open>The JSON object \<^verbatim>\<open>{}\<close>, and a port that answers every request with it.\<close>

definition empty_body :: body where
  "empty_body =
     \<lparr>b_files = None, b_fileTransferArchive = None, b_fileTransferMode = None,
      b_loginMode = None, b_credentials = None\<rparr>"

definition no_listing :: network where
  "no_listing h rq = Some \<lparr>status_code = 200, content = [], json_body = Some empty_body\<rparr>"

text \<open>The storage side lists \<^verbatim>\<open>b.txt\<close>; the metadata side cannot be reached.\<close>

definition metadata_unreachable :: network where
  "metadata_unreachable h rq =
     (if url rq = ''http://circle1-port-owncloud/storage/folder''
      then Some \<lparr>status_code = 200, content = [],
                 json_body = Some (empty_body\<lparr>b_files := Some [''b.txt'']\<rparr>)\<rparr>
      else None)"

text \<open>A port that answers every request with status 500 and a page that is not JSON.\<close>

definition html_error :: network where
  "html_error h rq =
     Some \<lparr>status_code = 500, content = ''<html>Internal Server Error</html>'',
           json_body = None\<rparr>"

section \<open>Properties\<close>

lemma scan_first_match:
  "key \<notin> fst ` set before \<Longrightarrow> scan (before @ (key, v) # rest) key = Some v"
  by (induction before) auto

lemma scan_absent: "key \<notin> fst ` set props \<Longrightarrow> scan props key = None"
  by (induction props) auto

text \<open>
  C6. A lookup on an adapter whose custom properties are a list returns the value of the
  first pair with the key and \<^verbatim>\<open>None\<close> when no pair has it. An adapter built without
  the optional property list holds \<^verbatim>\<open>None\<close> there (the constructor's default), and on
  it the lookup raises \<^verbatim>\<open>TypeError\<close> for every key instead of returning \<^verbatim>\<open>None\<close>.
\<close>

theorem getProperty_default_raises:
  "getProperty (s\<lparr>customProperties := None\<rparr>) key = Inl TypeError"
  by (simp add: getProperty_def)

lemma getProperty_first_match:
  "customProperties s = Some (before @ (key, v) # rest) \<Longrightarrow> key \<notin> fst ` set before \<Longrightarrow>
   getProperty s key = Inr (Some v)"
  by (simp add: getProperty_def scan_first_match)

lemma getProperty_absent:
  "customProperties s = Some props \<Longrightarrow> key \<notin> fst ` set props \<Longrightarrow>
   getProperty s key = Inr None"
  by (simp add: getProperty_def scan_absent)

subsection \<open>Removing a file\<close>

lemma confirmed_same: "confirmed E tr tr = False"
  by (simp add: confirmed_def)

lemma confirmed_snoc:
  assumes "length tr \<le> length tr1"
  shows "confirmed E tr (tr1 @ [rq]) =
         (confirmed E tr tr1 \<or> (case net E tr1 rq of None \<Rightarrow> False | Some r \<Rightarrow> status_code r < 300))"
proof -
  have split: "{length tr ..< length (tr1 @ [rq])} = insert (length tr1) {length tr ..< length tr1}"
    using assms by auto
  show ?thesis
    unfolding confirmed_def split
    by (auto simp: nth_append)
qed

lemma getFilepath_None: "customProperties s = None \<Longrightarrow> getFilepath s = Inl TypeError"
  by (simp add: getFilepath_def getProperty_def)

lemma getFilepath_Some: "customProperties s = Some props \<Longrightarrow> \<exists>p. getFilepath s = Inr p"
  by (simp add: getFilepath_def getProperty_def)

lemma getProjectId_None: "customProperties s = None \<Longrightarrow> getProjectId s = Inl TypeError"
  by (simp add: getProjectId_def getProperty_def)

lemma getProjectId_Some: "customProperties s = Some props \<Longrightarrow> \<exists>p. getProjectId s = Inr p"
  by (simp add: getProjectId_def getProperty_def)

lemma removeFile_fileStorage_Inr:
  "removeFile_fileStorage E s tr file = (Inr (found1, data), tr1) \<Longrightarrow>
   length tr \<le> length tr1 \<and> found1 = confirmed E tr tr1 \<and> (found1 \<longrightarrow> fileStorage s)
   \<and> (customProperties s = None \<longrightarrow> \<not> found1 \<and> tr1 = tr)"
  by (cases "customProperties s")
     (auto simp: removeFile_fileStorage_def confirmed_same confirmed_snoc getFilepath_None Let_def
           split: if_splits sum.splits option.splits)

lemma removeFile_fileStorage_Inl:
  "removeFile_fileStorage E s tr file = (Inl e, tr1) \<Longrightarrow> e \<noteq> RequestException \<Longrightarrow> tr1 = tr"
  by (auto simp: removeFile_fileStorage_def Let_def split: if_splits sum.splits option.splits)

lemma removeFile_metadata_Inr:
  "removeFile_metadata E s tr1 i found1 data = (Inr found, tr2) \<Longrightarrow>
   length tr \<le> length tr1 \<Longrightarrow> found1 = confirmed E tr tr1 \<Longrightarrow>
   found = confirmed E tr tr2 \<and> (found \<longrightarrow> found1 \<or> metadata s)"
  by (auto simp: removeFile_metadata_def confirmed_snoc Let_def
           split: if_splits sum.splits option.splits)

lemma removeFile_metadata_Inl:
  "removeFile_metadata E s tr1 i found1 data = (Inl e, tr2) \<Longrightarrow> e \<noteq> RequestException \<Longrightarrow>
   tr2 = tr1 \<and> customProperties s = None"
  by (cases "customProperties s")
     (auto simp: removeFile_metadata_def Let_def getProjectId_def getProperty_def
           split: if_splits sum.splits option.splits)

lemma position_in_range:
  "- int (length xs) \<le> i \<Longrightarrow> i < int (length xs) \<Longrightarrow>
   position xs i = Inr (nat (if i < 0 then int (length xs) + i else i))"
  by (auto simp: position_def)

lemma position_less: "position xs i = Inr k \<Longrightarrow> k < length xs"
  by (auto simp: position_def split: if_splits)

text \<open>
  C1. On a cache that is a list and an index in range (from \<open>-n\<close> to \<open>n-1\<close>), when no
  call of \<^verbatim>\<open>requests\<close> raises: \<^verbatim>\<open>removeFile\<close> returns \<^verbatim>\<open>True\<close> exactly when one of the
  deletions it sent was answered with a status below 300; then the entry at the index is
  gone and the cache is one shorter. When it returns \<^verbatim>\<open>False\<close> the object is unchanged,
  and with neither capability enabled it returns \<^verbatim>\<open>False\<close>.
\<close>

theorem removeFile_or_merge:
  assumes cache: "files s = Some fs"
    and range: "- int (length fs) \<le> i" "i < int (length fs)"
    and run: "removeFile E s tr i = (r, s', tr')"
    and answered: "r \<noteq> Inl RequestException"
  shows "(r = Inr True \<longleftrightarrow> confirmed E tr tr')
       \<and> (r = Inr True \<longrightarrow>
            files s' = Some (take (nat (if i < 0 then int (length fs) + i else i)) fs
                             @ drop (Suc (nat (if i < 0 then int (length fs) + i else i))) fs)
            \<and> (\<exists>rest. files s' = Some rest \<and> Suc (length rest) = length fs))
       \<and> (r = Inr False \<longrightarrow> s' = s)
       \<and> (\<not> fileStorage s \<and> \<not> metadata s \<longrightarrow> r = Inr False)"
proof -
  let ?k = "nat (if i < 0 then int (length fs) + i else i)"
  have pos: "position fs i = Inr ?k"
    using range by (rule position_in_range)
  have k: "?k < length fs"
    using pos by (rule position_less)
  have item: "getitem (files s) i = Inr (fs ! ?k)"
    using cache pos by (simp add: getitem_def)
  have del: "delitem (files s) i = Inr (take ?k fs @ drop (Suc ?k) fs)"
    using cache pos by (simp add: delitem_def)
  obtain r1 tr1 where st: "removeFile_fileStorage E s tr (fs ! ?k) = (r1, tr1)"
    by (cases "removeFile_fileStorage E s tr (fs ! ?k)")
  show ?thesis
  proof (cases r1)
    case (Inl e)
    with run item st have "r = Inl e" "s' = s" "tr' = tr1"
      by (simp_all add: removeFile_def)
    moreover from this answered st Inl have "tr1 = tr"
      by (auto dest: removeFile_fileStorage_Inl)
    moreover from st Inl have "fileStorage s"
      by (auto simp: removeFile_fileStorage_def split: if_splits)
    ultimately show ?thesis
      by (simp add: confirmed_same)
  next
    case (Inr p)
    obtain found1 data where p: "p = (found1, data)"
      by (cases p)
    from st Inr p have st': "removeFile_fileStorage E s tr (fs ! ?k) = (Inr (found1, data), tr1)"
      by simp
    note f1 = removeFile_fileStorage_Inr [OF st']
    obtain r2 tr2 where md: "removeFile_metadata E s tr1 i found1 data = (r2, tr2)"
      by (cases "removeFile_metadata E s tr1 i found1 data")
    show ?thesis
    proof (cases r2)
      case (Inl e)
      with run item st' md have out: "r = Inl e" "s' = s" "tr' = tr2"
        by (simp_all add: removeFile_def)
      with answered md Inl have "tr2 = tr1 \<and> customProperties s = None"
        by (auto dest: removeFile_metadata_Inl)
      with f1 have "\<not> confirmed E tr tr2"
        by (auto simp: confirmed_same)
      moreover from md Inl have "metadata s"
        by (auto simp: removeFile_metadata_def split: if_splits)
      ultimately show ?thesis
        using out by simp
    next
      case (Inr found)
      with md have md': "removeFile_metadata E s tr1 i found1 data = (Inr found, tr2)"
        by simp
      from f1 have "length tr \<le> length tr1" "found1 = confirmed E tr tr1"
        by simp_all
      note f2 = removeFile_metadata_Inr [OF md' this]
      show ?thesis
      proof (cases found)
        case True
        with run item st' md' del have "r = Inr True" "tr' = tr2"
          "s' = s\<lparr>files := Some (take ?k fs @ drop (Suc ?k) fs)\<rparr>"
          by (simp_all add: removeFile_def)
        with f1 f2 True k show ?thesis
          by auto
      next
        case False
        with run item st' md' have "r = Inr False" "tr' = tr2" "s' = s"
          by (simp_all add: removeFile_def)
        with f2 False show ?thesis
          by auto
      qed
    qed
  qed
qed

theorem removeFile_or_merge_witness:
  "files owncloud = Some [''a.txt'', ''b.txt'']
   \<and> fst (removeFile (backend storage_refuses) owncloud [] 0) = Inr True
   \<and> confirmed (backend storage_refuses) [] (snd (snd (removeFile (backend storage_refuses) owncloud [] 0)))
   \<and> files (fst (snd (removeFile (backend storage_refuses) owncloud [] 0))) = Some [''b.txt'']"
proof -
  have cache: "files owncloud = Some [''a.txt'', ''b.txt'']"
    by (simp add: owncloud_def)
  have run: "removeFile (backend storage_refuses) owncloud [] 0 =
      (Inr True, owncloud\<lparr>files := Some [''b.txt'']\<rparr>,
       [\<lparr>meth = DELETE, url = ''http://circle1-port-owncloud/storage/file'',
         payload = [(''userId'', Some ''admin''), (''filepath'', Some ''/photos/a.txt'')],
         upload = None\<rparr>,
        \<lparr>meth = DELETE, url = ''http://circle1-port-owncloud/metadata/project/5/files/0'',
         payload = [(''userId'', Some ''admin''), (''filepath'', Some ''/photos/a.txt'')],
         upload = None\<rparr>])"
    by (simp add: removeFile_def removeFile_fileStorage_def removeFile_metadata_def getitem_def
        delitem_def position_def getFilepath_def getProjectId_def getProperty_def
        endswith_slash_def str_opt_def str_int_def owncloud_def backend_def storage_refuses_def Let_def)
  have "- int (length [''a.txt'', ''b.txt'']) \<le> (0::int)" "(0::int) < int (length [''a.txt'', ''b.txt''])"
    by simp_all
  from removeFile_or_merge [OF cache this run] cache run show ?thesis
    by simp
qed

subsection \<open>Fetching a file, and negative indices\<close>

lemma position_out_of_range:
  "i < - int (length xs) \<or> int (length xs) \<le> i \<Longrightarrow> position xs i = Inl IndexError"
  by (auto simp: position_def)

lemma position_IndexError:
  "position xs i = Inl IndexError \<longleftrightarrow> (i < - int (length xs) \<or> int (length xs) \<le> i)"
  by (auto simp: position_def)

lemma position_error: "position xs i = Inl e \<Longrightarrow> e = IndexError"
  by (auto simp: position_def split: if_splits)

lemma position_negative:
  "- int (length xs) \<le> i \<Longrightarrow> i < 0 \<Longrightarrow> position xs i = position xs (int (length xs) + i)"
  by (auto simp: position_def)

lemma getFilepath_error: "getFilepath s = Inl e \<Longrightarrow> e = TypeError"
  by (auto simp: getFilepath_def getProperty_def split: option.splits sum.splits if_splits)

lemma getProjectId_error: "getProjectId s = Inl e \<Longrightarrow> e = TypeError"
  by (auto simp: getProjectId_def getProperty_def split: option.splits)

text \<open>
  C5. On a cache that is a list: without the file storage capability, \<^verbatim>\<open>getFile\<close> at an
  index in range (from \<open>-n\<close> to \<open>n-1\<close>) returns the empty buffer, leaves the object as
  it is and sends no request; at an index out of range it raises \<^verbatim>\<open>IndexError\<close>, with
  or without the capability.
\<close>

theorem getFile_without_storage:
  assumes "files s = Some fs"
  shows "(\<not> fileStorage s \<and> - int (length fs) \<le> i \<and> i < int (length fs) \<longrightarrow>
            getFile E s tr i = (Inr [], s, tr))
       \<and> (i < - int (length fs) \<or> int (length fs) \<le> i \<longrightarrow>
            getFile E s tr i = (Inl IndexError, s, tr))"
  using assms
  by (auto simp: getFile_def getitem_def position_in_range position_out_of_range)

theorem getFile_without_storage_witness:
  "files (owncloud\<lparr>fileStorage := False\<rparr>) = Some [''a.txt'', ''b.txt'']
   \<and> getFile (backend storage_refuses) (owncloud\<lparr>fileStorage := False\<rparr>) [] 1
       = (Inr [], owncloud\<lparr>fileStorage := False\<rparr>, [])
   \<and> getFile (backend storage_refuses) (owncloud\<lparr>fileStorage := False\<rparr>) [] 2
       = (Inl IndexError, owncloud\<lparr>fileStorage := False\<rparr>, [])"
proof -
  have cache: "files (owncloud\<lparr>fileStorage := False\<rparr>) = Some [''a.txt'', ''b.txt'']"
    by (simp add: owncloud_def)
  have off: "\<not> fileStorage (owncloud\<lparr>fileStorage := False\<rparr>)"
    by simp
  from getFile_without_storage [OF cache, of 1 "backend storage_refuses" "[]"]
       getFile_without_storage [OF cache, of 2 "backend storage_refuses" "[]"] cache off
  show ?thesis
    by simp
qed

lemma getFile_IndexError:
  "files s = Some fs \<Longrightarrow>
   fst (getFile E s tr i) = Inl IndexError \<longleftrightarrow> (i < - int (length fs) \<or> int (length fs) \<le> i)"
  by (auto simp: getFile_def getitem_def Let_def position_IndexError [symmetric]
           dest: position_error getFilepath_error
           split: sum.splits option.splits if_splits)

lemma removeFile_fileStorage_error:
  "removeFile_fileStorage E s tr file = (Inl e, tr1) \<Longrightarrow> e \<noteq> IndexError"
  by (auto simp: removeFile_fileStorage_def Let_def dest: getFilepath_error
           split: sum.splits option.splits if_splits)

lemma removeFile_metadata_error:
  "removeFile_metadata E s tr i found data = (Inl e, tr1) \<Longrightarrow> e \<noteq> IndexError"
  by (auto simp: removeFile_metadata_def Let_def dest: getProjectId_error
           split: sum.splits option.splits if_splits)

lemma removeFile_IndexError:
  "files s = Some fs \<Longrightarrow>
   fst (removeFile E s tr i) = Inl IndexError \<longleftrightarrow> (i < - int (length fs) \<or> int (length fs) \<le> i)"
  by (auto simp: removeFile_def getitem_def delitem_def position_IndexError [symmetric]
           dest: position_error removeFile_fileStorage_error removeFile_metadata_error
           split: sum.splits option.splits if_splits prod.splits)

lemma getitem_negative:
  "- int (length xs) \<le> i \<Longrightarrow> i < 0 \<Longrightarrow> getitem (Some xs) i = getitem (Some xs) (int (length xs) + i)"
  by (simp add: getitem_def position_negative)

lemma delitem_negative:
  "- int (length xs) \<le> i \<Longrightarrow> i < 0 \<Longrightarrow> delitem (Some xs) i = delitem (Some xs) (int (length xs) + i)"
  by (simp add: delitem_def position_negative)

lemma removeFile_removes:
  "files s = Some fs \<Longrightarrow> removeFile E s tr i = (Inr True, s', tr') \<Longrightarrow>
   \<exists>k. position fs i = Inr k \<and> files s' = Some (take k fs @ drop (Suc k) fs)"
  by (auto simp: removeFile_def getitem_def delitem_def
           split: sum.splits option.splits if_splits prod.splits)

text \<open>
  C10. On a cache of \<open>n\<close> entries, an index \<open>i\<close> from \<open>-n\<close> to \<open>-1\<close> does not raise
  \<^verbatim>\<open>IndexError\<close>: \<^verbatim>\<open>getFile\<close> does what it does at \<open>n + i\<close>, so does
  \<^verbatim>\<open>removeFile\<close> on an adapter without metadata (with metadata the index is printed
  into the URL), and a removal that returns \<^verbatim>\<open>True\<close> deletes the entry at \<open>n + i\<close>.
  \<^verbatim>\<open>IndexError\<close> is raised exactly at the indices below \<open>-n\<close> or from \<open>n\<close>.
\<close>

theorem negative_index:
  assumes cache: "files s = Some fs"
    and range: "- int (length fs) \<le> i" "i \<le> - 1"
  shows "getFile E s tr i = getFile E s tr (int (length fs) + i)
       \<and> fst (getFile E s tr i) \<noteq> Inl IndexError
       \<and> fst (removeFile E s tr i) \<noteq> Inl IndexError
       \<and> (\<not> metadata s \<longrightarrow> removeFile E s tr i = removeFile E s tr (int (length fs) + i))
       \<and> (\<forall>s' tr'. removeFile E s tr i = (Inr True, s', tr') \<longrightarrow>
             files s' = Some (take (nat (int (length fs) + i)) fs
                              @ drop (Suc (nat (int (length fs) + i))) fs))
       \<and> (\<forall>j. fst (getFile E s tr j) = Inl IndexError
                 \<longleftrightarrow> (j < - int (length fs) \<or> int (length fs) \<le> j))
       \<and> (\<forall>j. fst (removeFile E s tr j) = Inl IndexError
                 \<longleftrightarrow> (j < - int (length fs) \<or> int (length fs) \<le> j))"
proof -
  from range have neg: "i < 0" and below: "i < int (length fs)"
    by simp_all
  have pos: "position fs i = Inr (nat (int (length fs) + i))"
    using position_in_range [OF range(1) below] neg by simp
  have "getFile E s tr i = getFile E s tr (int (length fs) + i)"
    using cache getitem_negative [OF range(1) neg] by (simp add: getFile_def)
  moreover have "fst (getFile E s tr i) \<noteq> Inl IndexError"
    using getFile_IndexError [OF cache, of E tr i] range by simp
  moreover have "fst (removeFile E s tr i) \<noteq> Inl IndexError"
    using removeFile_IndexError [OF cache, of E tr i] range by simp
  moreover have "\<not> metadata s \<longrightarrow> removeFile E s tr i = removeFile E s tr (int (length fs) + i)"
  proof
    assume "\<not> metadata s"
    then have md: "removeFile_metadata E s tr1 j found data = (Inr found, tr1)"
      for tr1 j found data
      by (simp add: removeFile_metadata_def)
    show "removeFile E s tr i = removeFile E s tr (int (length fs) + i)"
      unfolding removeFile_def cache md
        getitem_negative [OF range(1) neg] delitem_negative [OF range(1) neg] ..
  qed
  moreover have "\<forall>s' tr'. removeFile E s tr i = (Inr True, s', tr') \<longrightarrow>
             files s' = Some (take (nat (int (length fs) + i)) fs
                              @ drop (Suc (nat (int (length fs) + i))) fs)"
    using removeFile_removes [OF cache] pos by fastforce
  ultimately show ?thesis
    using getFile_IndexError [OF cache] removeFile_IndexError [OF cache] by simp
qed

theorem negative_index_witness:
  "files owncloud = Some [''a.txt'', ''b.txt'']
   \<and> getFile (backend storage_refuses) owncloud [] (- 1)
       = getFile (backend storage_refuses) owncloud [] 1
   \<and> fst (removeFile (backend storage_refuses) owncloud [] (- 1)) \<noteq> Inl IndexError
   \<and> fst (getFile (backend storage_refuses) owncloud [] (- 3)) = Inl IndexError"
proof -
  have cache: "files owncloud = Some [''a.txt'', ''b.txt'']"
    by (simp add: owncloud_def)
  have range: "- int (length [''a.txt'', ''b.txt'']) \<le> (- 1 :: int)" "(- 1 :: int) \<le> - 1"
    by simp_all
  from negative_index [OF cache range, of "backend storage_refuses" "[]"] cache
  show ?thesis
    by simp
qed

subsection \<open>Construction and synchronisation\<close>

lemma reloadInformations_keeps:
  assumes "reloadInformations E s tr = (r, s', tr')"
  shows "files s' = files s \<and> servicename s' = servicename s \<and> port s' = port s
       \<and> portaddress s' = portaddress s \<and> fileStorage s' = fileStorage s
       \<and> metadata s' = metadata s \<and> customProperties s' = customProperties s"
  using assms
  by (auto simp: reloadInformations_def Let_def split: option.splits if_splits)

lemma reload_fileStorage_keeps:
  assumes "reload_fileStorage E s tr = (r, s', tr')"
  shows "servicename s' = servicename s \<and> port s' = port s
       \<and> portaddress s' = portaddress s \<and> fileStorage s' = fileStorage s
       \<and> metadata s' = metadata s \<and> customProperties s' = customProperties s"
  using assms
  by (auto simp: reload_fileStorage_def Let_def split: sum.splits option.splits)

lemma reload_fileStorage_Inl:
  "reload_fileStorage E s tr = (Inl e, s', tr') \<Longrightarrow> s' = s"
  by (auto simp: reload_fileStorage_def Let_def split: sum.splits option.splits)

lemma reload_keeps:
  assumes "reload E s tr = (r, s', tr')"
  shows "servicename s' = servicename s \<and> port s' = port s
       \<and> portaddress s' = portaddress s \<and> fileStorage s' = fileStorage s
       \<and> metadata s' = metadata s \<and> customProperties s' = customProperties s"
proof -
  obtain r1 s1 tr1 where st:
    "(if fileStorage s then reload_fileStorage E s tr else (Inr (), s, tr)) = (r1, s1, tr1)"
    by (metis prod_cases3)
  then have k1: "servicename s1 = servicename s \<and> port s1 = port s
       \<and> portaddress s1 = portaddress s \<and> fileStorage s1 = fileStorage s
       \<and> metadata s1 = metadata s \<and> customProperties s1 = customProperties s"
    by (auto split: if_splits dest: reload_fileStorage_keeps)
  show ?thesis
  proof (cases r1)
    case (Inl e)
    with assms st have "s' = s1"
      by (simp add: reload_def)
    with k1 show ?thesis by simp
  next
    case (Inr u)
    show ?thesis
    proof (cases "metadata s1")
      case True
      with assms st Inr have "reloadInformations E s1 tr1 = (r, s', tr')"
        by (simp add: reload_def)
      from reloadInformations_keeps [OF this] k1 show ?thesis by simp
    next
      case False
      with assms st Inr have "s' = s1"
        by (simp add: reload_def)
      with k1 show ?thesis by simp
    qed
  qed
qed

lemma reload_no_capability:
  "\<not> fileStorage s \<Longrightarrow> \<not> metadata s \<Longrightarrow> reload E s tr = (Inr (), s, tr)"
  by (simp add: reload_def)

text \<open>
  C2. The constructor does not check the name. Whatever the name, the object keeps it as
  \<open>servicename\<close>; \<open>port\<close> is the name itself when it starts with \<^verbatim>\<open>port-\<close>, and
  \<^verbatim>\<open>port-\<close> followed by the name in lower case otherwise; the address is
  \<^verbatim>\<open>http://circle1-\<close> followed by \<open>port\<close> in lower case, unless \<^verbatim>\<open>testing\<close> is not
  \<^verbatim>\<open>False\<close>, and then it is the value of \<^verbatim>\<open>testing\<close>. With no capability enabled the
  construction succeeds for every name.
\<close>

theorem init_normalises:
  "servicename (fst (snd (init E name uid rix fs md props tst tr))) = name
   \<and> port (fst (snd (init E name uid rix fs md props tst tr)))
       = (if startswith name ''port-'' then name else ''port-'' @ lower name)
   \<and> portaddress (fst (snd (init E name uid rix fs md props tst tr)))
       = (case tst of
            NoOverride \<Rightarrow>
              Some (''http://circle1-''
                    @ lower (if startswith name ''port-'' then name else ''port-'' @ lower name))
          | Override a \<Rightarrow> a)
   \<and> fst (init E name uid rix False False props tst tr) = Inr ()"
proof -
  obtain r s' tr' where run: "init E name uid rix fs md props tst tr = (r, s', tr')"
    by (metis prod_cases3)
  then have "servicename s' = name
     \<and> port s' = (if startswith name ''port-'' then name else ''port-'' @ lower name)
     \<and> portaddress s' = (case tst of
            NoOverride \<Rightarrow>
              Some (''http://circle1-''
                    @ lower (if startswith name ''port-'' then name else ''port-'' @ lower name))
          | Override a \<Rightarrow> a)"
    unfolding init_def Let_def by (auto dest!: reload_keeps)
  moreover have "fst (init E name uid rix False False props tst tr) = Inr ()"
    by (simp add: init_def Let_def reload_no_capability)
  ultimately show ?thesis
    using run by simp
qed

text \<open>
  The empty name is accepted: the port is \<^verbatim>\<open>port-\<close>.
\<close>

theorem init_empty_name:
  "fst (init (backend unreachable) [] (Some ''admin'') (Some 0) False False None NoOverride [])
     = Inr ()
   \<and> port (fst (snd (init (backend unreachable) [] (Some ''admin'') (Some 0) False False None
                       NoOverride []))) = ''port-''
   \<and> portaddress (fst (snd (init (backend unreachable) [] (Some ''admin'') (Some 0) False False
                              None NoOverride []))) = Some ''http://circle1-port-''"
  by (simp add: init_def Let_def reload_no_capability startswith_def lower_def lower_char_def)

lemma lower_example: "lower ''OwnCloud'' = ''owncloud''"
  by (simp add: lower_def lower_char_def)

lemma reload_fileStorage_Inr:
  assumes "reload_fileStorage E s tr = (Inr u, s', tr')"
  shows "\<exists>filepath resp json.
           getFilepath s = Inr filepath
         \<and> net E tr \<lparr>meth = GET, url = str_opt (portaddress s) @ ''/storage/folder'',
                       payload = [(''filepath'', filepath), (''userId'', userId s)],
                       upload = None\<rparr> = Some resp
         \<and> json_body resp = Some json \<and> s' = s\<lparr>files := b_files json\<rparr>"
  using assms
  by (auto simp: reload_fileStorage_def Let_def split: sum.splits option.splits)

lemma reload_listing:
  assumes "fileStorage s" and "getFilepath s = Inr filepath"
    and "net E tr \<lparr>meth = GET, url = str_opt (portaddress s) @ ''/storage/folder'',
                    payload = [(''filepath'', filepath), (''userId'', userId s)],
                    upload = None\<rparr> = Some resp"
    and "json_body resp = Some json"
  shows "files (fst (snd (reload E s tr))) = b_files json"
proof -
  obtain tr1 where st: "reload_fileStorage E s tr = (Inr (), s\<lparr>files := b_files json\<rparr>, tr1)"
    using assms by (simp add: reload_fileStorage_def Let_def)
  obtain r s' tr' where run: "reload E s tr = (r, s', tr')"
    by (metis prod_cases3)
  show ?thesis
  proof (cases "metadata s")
    case True
    with st assms(1)
    have "reload E s tr = reloadInformations E (s\<lparr>files := b_files json\<rparr>) tr1"
      by (simp add: reload_def)
    with run
    have "reloadInformations E (s\<lparr>files := b_files json\<rparr>) tr1 = (r, s', tr')"
      by simp
    from reloadInformations_keeps [OF this] run show ?thesis
      by simp
  next
    case False
    with st assms(1) have "reload E s tr = (Inr (), s\<lparr>files := b_files json\<rparr>, tr1)"
      by (simp add: reload_def)
    then show ?thesis
      by simp
  qed
qed

text \<open>
  C3. The storage branch of \<^verbatim>\<open>reload\<close> assigns \<^verbatim>\<open>json.get("files")\<close>: the listing when
  the response has one (lemma \<open>reload_listing\<close>), and \<^verbatim>\<open>None\<close>, not the empty list,
  when the response has no \<^verbatim>\<open>files\<close> field.
\<close>

theorem reload_missing_listing:
  "files (fst (snd (reload (backend no_listing) (owncloud\<lparr>metadata := False\<rparr>) []))) = None
   \<and> fst (reload (backend no_listing) (owncloud\<lparr>metadata := False\<rparr>) []) = Inr ()"
  by (simp add: reload_def reload_fileStorage_def getFilepath_def getProperty_def
      endswith_slash_def str_opt_def owncloud_def backend_def no_listing_def empty_body_def Let_def)

text \<open>
  C4. A failing branch aborts \<^verbatim>\<open>reload\<close> with its exception. When the storage branch
  fails the object is as before the call. When the metadata branch fails the cache is
  what the storage branch left: the cache of before on an adapter without file storage,
  and the new listing on an adapter with both capabilities.
\<close>

theorem reload_failure:
  "(fileStorage s \<and> reload_fileStorage E s tr = (Inl e, s1, tr1) \<longrightarrow>
      reload E s tr = (Inl e, s, tr1))
   \<and> (\<not> fileStorage s \<and> metadata s \<and> reloadInformations E s tr = (Inl e, s1, tr1) \<longrightarrow>
      reload E s tr = (Inl e, s1, tr1) \<and> files s1 = files s)
   \<and> (fileStorage s \<and> metadata s \<and> reload_fileStorage E s tr = (Inr (), s1, tr1)
      \<and> reloadInformations E s1 tr1 = (Inl e, s2, tr2) \<longrightarrow>
      reload E s tr = (Inl e, s2, tr2) \<and> files s2 = files s1
      \<and> (\<exists>filepath resp json.
            getFilepath s = Inr filepath
          \<and> net E tr \<lparr>meth = GET, url = str_opt (portaddress s) @ ''/storage/folder'',
                        payload = [(''filepath'', filepath), (''userId'', userId s)],
                        upload = None\<rparr> = Some resp
          \<and> json_body resp = Some json \<and> files s2 = b_files json))"
proof (intro conjI impI)
  assume "fileStorage s \<and> reload_fileStorage E s tr = (Inl e, s1, tr1)"
  then show "reload E s tr = (Inl e, s, tr1)"
    by (auto simp: reload_def dest: reload_fileStorage_Inl)
next
  assume a: "\<not> fileStorage s \<and> metadata s \<and> reloadInformations E s tr = (Inl e, s1, tr1)"
  then show "reload E s tr = (Inl e, s1, tr1)"
    by (simp add: reload_def)
  from a show "files s1 = files s"
    by (auto dest: reloadInformations_keeps)
next
  assume a: "fileStorage s \<and> metadata s \<and> reload_fileStorage E s tr = (Inr (), s1, tr1)
      \<and> reloadInformations E s1 tr1 = (Inl e, s2, tr2)"
  then have md: "metadata s1"
    by (auto dest: reload_fileStorage_keeps)
  with a show "reload E s tr = (Inl e, s2, tr2)"
    by (simp add: reload_def)
  from a show f: "files s2 = files s1"
    by (auto dest: reloadInformations_keeps)
  from a have "reload_fileStorage E s tr = (Inr (), s1, tr1)"
    by simp
  from reload_fileStorage_Inr [OF this] f
  show "\<exists>filepath resp json.
            getFilepath s = Inr filepath
          \<and> net E tr \<lparr>meth = GET, url = str_opt (portaddress s) @ ''/storage/folder'',
                        payload = [(''filepath'', filepath), (''userId'', userId s)],
                        upload = None\<rparr> = Some resp
          \<and> json_body resp = Some json \<and> files s2 = b_files json"
    by auto
qed

text \<open>
  Both capabilities, the listing answered and the metadata side unreachable: \<^verbatim>\<open>reload\<close>
  raises, and the cache is no longer the one of before the call.
\<close>

theorem reload_partial:
  "fst (reload (backend metadata_unreachable) owncloud []) = Inl RequestException
   \<and> files owncloud = Some [''a.txt'', ''b.txt'']
   \<and> files (fst (snd (reload (backend metadata_unreachable) owncloud []))) = Some [''b.txt'']"
  by (simp add: reload_def reload_fileStorage_def reloadInformations_def getFilepath_def
      getProperty_def endswith_slash_def str_opt_def owncloud_def backend_def
      metadata_unreachable_def empty_body_def Let_def)

theorem reload_failure_witness:
  "fileStorage owncloud \<and> metadata owncloud
   \<and> reload (backend metadata_unreachable) owncloud [] =
       (Inl RequestException, owncloud\<lparr>files := Some [''b.txt'']\<rparr>,
        [\<lparr>meth = GET, url = ''http://circle1-port-owncloud/storage/folder'',
          payload = [(''filepath'', Some ''/photos''), (''userId'', Some ''admin'')],
          upload = None\<rparr>,
         \<lparr>meth = GET, url = ''http://circle1-port-owncloud/metadata/informations'',
          payload = [], upload = None\<rparr>])"
proof -
  let ?E = "backend metadata_unreachable"
  let ?s1 = "owncloud\<lparr>files := Some [''b.txt'']\<rparr>"
  let ?rq1 = "\<lparr>meth = GET, url = ''http://circle1-port-owncloud/storage/folder'',
          payload = [(''filepath'', Some ''/photos''), (''userId'', Some ''admin'')],
          upload = None\<rparr>"
  let ?rq2 = "\<lparr>meth = GET, url = ''http://circle1-port-owncloud/metadata/informations'',
          payload = [], upload = None\<rparr>"
  have caps: "fileStorage owncloud" "metadata owncloud"
    by (simp_all add: owncloud_def)
  have st: "reload_fileStorage ?E owncloud [] = (Inr (), ?s1, [?rq1])"
    by (simp add: reload_fileStorage_def getFilepath_def getProperty_def endswith_slash_def
        str_opt_def owncloud_def backend_def metadata_unreachable_def empty_body_def Let_def)
  have md: "reloadInformations ?E ?s1 [?rq1] = (Inl RequestException, ?s1, [?rq1, ?rq2])"
    by (simp add: reloadInformations_def str_opt_def owncloud_def backend_def
        metadata_unreachable_def Let_def)
  from reload_failure [of owncloud ?E "[]" RequestException ?s1 "[?rq1]" ?s1 "[?rq1, ?rq2]"]
    caps st md
  show ?thesis
    by simp
qed

subsection \<open>Removing all files\<close>

lemma removeAllFiles_metadata_Inr:
  assumes "removeAllFiles_metadata E s tr found0 = (Inr found, tr1)"
  shows "found = (found0 \<or> confirmed E tr tr1)"
    and "\<not> metadata s \<Longrightarrow> tr1 = tr"
    and "metadata s \<Longrightarrow>
         \<exists>projectId. getProjectId s = Inr projectId
           \<and> tr1 = tr @ [\<lparr>meth = DELETE,
                            url = str_opt (portaddress s) @ ''/metadata/project/''
                                  @ str_opt projectId @ ''/files'',
                            payload = [(''userId'', userId s)], upload = None\<rparr>]"
  using assms
  by (auto simp: removeAllFiles_metadata_def confirmed_same confirmed_snoc Let_def
           split: if_splits sum.splits option.splits)

lemma removeAllFiles_found:
  assumes "removeAllFiles_metadata E s tr (fileStorage s) = (Inr True, tr1)"
  shows "removeAllFiles E s tr =
           (case reload E s tr1 of
              (Inl e, after) \<Rightarrow> (Inl e, after)
            | (Inr _, after) \<Rightarrow> (Inr True, after))"
  using assms by (cases "fileStorage s") (simp_all add: removeAllFiles_def split: prod.splits sum.splits)

lemma removeAllFiles_not_found:
  assumes "removeAllFiles_metadata E s tr (fileStorage s) = (Inr False, tr1)"
  shows "removeAllFiles E s tr = (Inr False, s, tr1)"
  using assms by (cases "fileStorage s") (simp_all add: removeAllFiles_def)

lemma removeAllFiles_raises:
  assumes "removeAllFiles_metadata E s tr (fileStorage s) = (Inl e, tr1)"
  shows "removeAllFiles E s tr = (Inl e, s, tr1)"
  using assms by (cases "fileStorage s") (simp_all add: removeAllFiles_def)

lemma removeAllFiles_storage_only:
  assumes "fileStorage s" and "\<not> metadata s"
  shows "removeAllFiles_metadata E s tr (fileStorage s) = (Inr True, tr)"
  using assms by (simp add: removeAllFiles_metadata_def)

text \<open>
  C9. \<^verbatim>\<open>removeAllFiles\<close> sends nothing to the storage side before it reloads: with file
  storage enabled \<^verbatim>\<open>found\<close> is set at once, so the call never returns \<^verbatim>\<open>False\<close>, and
  the only request before the reload is the bulk deletion on the metadata side, when
  metadata is enabled. It returns \<^verbatim>\<open>False\<close>, with the object unchanged, only without
  file storage and without a confirmed bulk deletion. It returns \<^verbatim>\<open>True\<close> only after a
  \<^verbatim>\<open>reload\<close> of the object, whose outcome is the new object; on a storage-only adapter
  the call is that reload.
\<close>

theorem removeAllFiles_resync:
  assumes run: "removeAllFiles E s tr = (r, s', tr')"
  shows "(fileStorage s \<longrightarrow> r \<noteq> Inr False)
       \<and> (r = Inr False \<longrightarrow> s' = s \<and> \<not> fileStorage s \<and> \<not> confirmed E tr tr')
       \<and> (r = Inr True \<longrightarrow>
            (\<exists>tr1. (fileStorage s \<or> confirmed E tr tr1)
               \<and> (\<not> metadata s \<longrightarrow> tr1 = tr)
               \<and> (metadata s \<longrightarrow>
                    (\<exists>projectId. getProjectId s = Inr projectId
                       \<and> tr1 = tr @ [\<lparr>meth = DELETE,
                                        url = str_opt (portaddress s) @ ''/metadata/project/''
                                              @ str_opt projectId @ ''/files'',
                                        payload = [(''userId'', userId s)], upload = None\<rparr>]))
               \<and> reload E s tr1 = (Inr (), s', tr')))
       \<and> (fileStorage s \<and> \<not> metadata s \<longrightarrow>
            removeAllFiles E s tr = (case reload E s tr of
                                       (Inl e, after) \<Rightarrow> (Inl e, after)
                                     | (Inr _, after) \<Rightarrow> (Inr True, after)))"
proof -
  obtain r1 tr1 where md: "removeAllFiles_metadata E s tr (fileStorage s) = (r1, tr1)"
    by (cases "removeAllFiles_metadata E s tr (fileStorage s)")
  have only: "fileStorage s \<and> \<not> metadata s \<longrightarrow>
            removeAllFiles E s tr = (case reload E s tr of
                                       (Inl e, after) \<Rightarrow> (Inl e, after)
                                     | (Inr _, after) \<Rightarrow> (Inr True, after))"
    using removeAllFiles_found [OF removeAllFiles_storage_only] by blast
  show ?thesis
  proof (cases r1)
    case (Inl e)
    with md run have "r = Inl e"
      by (simp add: removeAllFiles_raises)
    with only show ?thesis
      by simp
  next
    case (Inr found)
    with md have md': "removeAllFiles_metadata E s tr (fileStorage s) = (Inr found, tr1)"
      by simp
    note f = removeAllFiles_metadata_Inr [OF md']
    show ?thesis
    proof (cases found)
      case False
      with md' run have "r = Inr False" "s' = s" "tr' = tr1"
        by (simp_all add: removeAllFiles_not_found)
      with f(1) False only show ?thesis
        by simp
    next
      case True
      with md' have call: "removeAllFiles E s tr =
           (case reload E s tr1 of
              (Inl e, after) \<Rightarrow> (Inl e, after)
            | (Inr _, after) \<Rightarrow> (Inr True, after))"
        by (simp add: removeAllFiles_found)
      obtain r2 s2 tr2 where re: "reload E s tr1 = (r2, s2, tr2)"
        by (metis prod_cases3)
      show ?thesis
      proof (cases r2)
        case (Inl e)
        with run call re have "r = Inl e"
          by simp
        with only show ?thesis
          by simp
      next
        case (Inr u)
        with run call re have out: "r = Inr True" "s' = s2" "tr' = tr2"
          by simp_all
        with re Inr have "reload E s tr1 = (Inr (), s', tr')"
          by simp
        moreover from f(1) True have "fileStorage s \<or> confirmed E tr tr1"
          by simp
        ultimately have "(fileStorage s \<or> confirmed E tr tr1)
               \<and> (\<not> metadata s \<longrightarrow> tr1 = tr)
               \<and> (metadata s \<longrightarrow>
                    (\<exists>projectId. getProjectId s = Inr projectId
                       \<and> tr1 = tr @ [\<lparr>meth = DELETE,
                                        url = str_opt (portaddress s) @ ''/metadata/project/''
                                              @ str_opt projectId @ ''/files'',
                                        payload = [(''userId'', userId s)], upload = None\<rparr>]))
               \<and> reload E s tr1 = (Inr (), s', tr')"
          using f(2) f(3) by blast
        then have "\<exists>tr1. (fileStorage s \<or> confirmed E tr tr1)
               \<and> (\<not> metadata s \<longrightarrow> tr1 = tr)
               \<and> (metadata s \<longrightarrow>
                    (\<exists>projectId. getProjectId s = Inr projectId
                       \<and> tr1 = tr @ [\<lparr>meth = DELETE,
                                        url = str_opt (portaddress s) @ ''/metadata/project/''
                                              @ str_opt projectId @ ''/files'',
                                        payload = [(''userId'', userId s)], upload = None\<rparr>]))
               \<and> reload E s tr1 = (Inr (), s', tr')"
          by (rule exI)
        with out(1) only show ?thesis
          by simp
      qed
    qed
  qed
qed

theorem removeAllFiles_resync_witness:
  "fileStorage (owncloud\<lparr>metadata := False\<rparr>)
   \<and> removeAllFiles (backend metadata_unreachable) (owncloud\<lparr>metadata := False\<rparr>) [] =
       (Inr True, owncloud\<lparr>metadata := False, files := Some [''b.txt'']\<rparr>,
        [\<lparr>meth = GET, url = ''http://circle1-port-owncloud/storage/folder'',
          payload = [(''filepath'', Some ''/photos''), (''userId'', Some ''admin'')],
          upload = None\<rparr>])"
proof -
  let ?E = "backend metadata_unreachable"
  let ?s = "owncloud\<lparr>metadata := False\<rparr>"
  obtain r s' tr' where run: "removeAllFiles ?E ?s [] = (r, s', tr')"
    by (metis prod_cases3)
  have caps: "fileStorage ?s" "\<not> metadata ?s"
    by (simp_all add: owncloud_def)
  have re: "reload ?E ?s [] =
       (Inr (), owncloud\<lparr>metadata := False, files := Some [''b.txt'']\<rparr>,
        [\<lparr>meth = GET, url = ''http://circle1-port-owncloud/storage/folder'',
          payload = [(''filepath'', Some ''/photos''), (''userId'', Some ''admin'')],
          upload = None\<rparr>])"
    by (simp add: reload_def reload_fileStorage_def getFilepath_def getProperty_def
        endswith_slash_def str_opt_def owncloud_def backend_def metadata_unreachable_def
        empty_body_def Let_def)
  from removeAllFiles_resync [OF run] caps
  have "removeAllFiles ?E ?s [] = (case reload ?E ?s [] of
                                       (Inl e, after) \<Rightarrow> (Inl e, after)
                                     | (Inr _, after) \<Rightarrow> (Inr True, after))"
    by blast
  with re caps show ?thesis
    by simp
qed

subsection \<open>Passive mode and adding a file\<close>

lemma getJSON_list: "files s = Some fs \<Longrightarrow> getJSON s = Inr (servicename s, fs)"
  by (simp add: getJSON_def getDict_def getFiles_def)

lemma getJSON_None: "files s = None \<Longrightarrow> getJSON s = Inl TypeError"
  by (simp add: getJSON_def getDict_def getFiles_def)

lemma triggerPassiveMode_no_metadata:
  "files s = Some fs \<Longrightarrow> \<not> metadata s \<Longrightarrow>
   triggerPassiveMode E s tr folder = (Inr True, s, tr)"
  by (simp add: triggerPassiveMode_def getJSON_list)

lemma triggerPassiveMode_status:
  assumes "files s = Some fs" and "metadata s" and "getProjectId s = Inr projectId"
    and "net E tr \<lparr>meth = POST,
                    url = str_opt (portaddress s) @ ''/metadata/project/''
                          @ str_opt projectId @ ''/files'',
                    payload = [(''userId'', userId s), (''folder'', Some folder)],
                    upload = None\<rparr> = Some response_to"
    and "status_code response_to < 300 \<or> json_body response_to \<noteq> None"
  shows "fst (triggerPassiveMode E s tr folder) = Inr (status_code response_to < 300)"
  using assms
  by (auto simp: triggerPassiveMode_def getJSON_list Let_def)

lemma triggerPassiveMode_no_cache:
  "triggerPassiveMode E (s\<lparr>files := None\<rparr>) tr folder = (Inl TypeError, s\<lparr>files := None\<rparr>, tr)"
  by (simp add: triggerPassiveMode_def getJSON_None)

text \<open>
  C7. On a cache that is a list, \<^verbatim>\<open>triggerPassiveMode\<close> returns \<^verbatim>\<open>True\<close> without a
  request when metadata is disabled, and with metadata the truth of \<open>status < 300\<close> when
  the response is a success or has a JSON body (lemmas \<open>triggerPassiveMode_no_metadata\<close>,
  \<open>triggerPassiveMode_status\<close>). On a status from 300 it logs \<^verbatim>\<open>response_to.json()\<close>
  before it returns: a response 500 whose body is not JSON makes the call raise instead
  of returning \<^verbatim>\<open>False\<close>.
\<close>

theorem triggerPassiveMode_error_page:
  "metadata owncloud
   \<and> net (backend html_error) []
        \<lparr>meth = POST, url = ''http://circle1-port-owncloud/metadata/project/5/files'',
         payload = [(''userId'', Some ''admin''), (''folder'', Some ''/photos'')],
         upload = None\<rparr>
       = Some \<lparr>status_code = 500, content = ''<html>Internal Server Error</html>'',
               json_body = None\<rparr>
   \<and> triggerPassiveMode (backend html_error) owncloud [] ''/photos'' =
       (Inl JSONDecodeError, owncloud,
        [\<lparr>meth = POST, url = ''http://circle1-port-owncloud/metadata/project/5/files'',
          payload = [(''userId'', Some ''admin''), (''folder'', Some ''/photos'')],
          upload = None\<rparr>])"
  by (simp add: triggerPassiveMode_def getJSON_def getDict_def getFiles_def getProjectId_def
      getProperty_def str_opt_def owncloud_def backend_def html_error_def Let_def)

lemma addFile_no_metadata:
  "files s = Some fs \<Longrightarrow> \<not> metadata s \<Longrightarrow>
   addFile E s tr filename fileContent = (Inr True, s, tr)"
  by (simp add: addFile_def getJSON_list)

lemma addFile_status:
  assumes "files s = Some fs" and "metadata s" and "getProjectId s = Inr projectId"
    and "net E tr \<lparr>meth = POST,
                    url = str_opt (portaddress s) @ ''/metadata/project/''
                          @ str_opt projectId @ ''/files'',
                    payload = [(''userId'', userId s), (''filename'', Some filename)],
                    upload = Some (filename, fileContent)\<rparr> = Some response_to"
    and "status_code response_to < 300 \<or> json_body response_to \<noteq> None"
  shows "fst (addFile E s tr filename fileContent) = Inr (status_code response_to < 300)"
  using assms
  by (auto simp: addFile_def getJSON_list Let_def)

lemma addFile_no_cache:
  "addFile E (s\<lparr>files := None\<rparr>) tr filename fileContent
     = (Inl TypeError, s\<lparr>files := None\<rparr>, tr)"
  by (simp add: addFile_def getJSON_None)

lemma addFile_keeps_object: "fst (snd (addFile E s tr filename fileContent)) = s"
  by (simp add: addFile_def Let_def split: sum.splits option.splits)

text \<open>
  C8. \<^verbatim>\<open>addFile\<close> never changes the object (lemma \<open>addFile_keeps_object\<close>), and on a
  cache that is a list it returns \<^verbatim>\<open>True\<close> without metadata, whatever the storage flag,
  and with metadata the truth of \<open>status < 300\<close> when the response is a success or has a
  JSON body (lemmas \<open>addFile_no_metadata\<close>, \<open>addFile_status\<close>). As in
  \<^verbatim>\<open>triggerPassiveMode\<close>, a response 500 whose body is not JSON makes the call raise
  instead of returning \<^verbatim>\<open>False\<close>.
\<close>

theorem addFile_error_page:
  "metadata owncloud
   \<and> net (backend html_error) []
        \<lparr>meth = POST, url = ''http://circle1-port-owncloud/metadata/project/5/files'',
         payload = [(''userId'', Some ''admin''), (''filename'', Some ''c.txt'')],
         upload = Some (''c.txt'', ''text'')\<rparr>
       = Some \<lparr>status_code = 500, content = ''<html>Internal Server Error</html>'',
               json_body = None\<rparr>
   \<and> addFile (backend html_error) owncloud [] ''c.txt'' ''text'' =
       (Inl JSONDecodeError, owncloud,
        [\<lparr>meth = POST, url = ''http://circle1-port-owncloud/metadata/project/5/files'',
          payload = [(''userId'', Some ''admin''), (''filename'', Some ''c.txt'')],
          upload = Some (''c.txt'', ''text'')\<rparr>])"
  by (simp add: addFile_def getJSON_def getDict_def getFiles_def getProjectId_def
      getProperty_def str_opt_def owncloud_def backend_def html_error_def Let_def)

end
